theory Spec2Isabelle
  imports Main "HOL-Library.Word" "HOL-Library.Sublist"
begin

section \<open>The storage layer of the bot: \<^verbatim>\<open>src/utils/database.py\<close> and \<^verbatim>\<open>src/utils/tickets.py\<close>\<close>

text \<open>
  The program keeps all of its state in one SQLite file and reaches it through the
  context manager \<^verbatim>\<open>get_db_connection\<close>, which holds the module-level
  \<^verbatim>\<open>db_lock = Lock()\<close> for the whole of a transaction. The embedding below is a
  state-passing one: a \<open>world\<close> holds the lock, the committed contents of the file, the
  number of open connections and the clock; every store operation is a function from a
  world to an outcome and the world it leaves behind.

  Conventions of the embedding.
  \<^item> A table is the list of its rows in insertion order, each row paired with its key.
    Key constraints are not built into the type: an \<^verbatim>\<open>INSERT\<close> checks them and raises
    \<^verbatim>\<open>sqlite3.IntegrityError\<close>, as the engine does.
  \<^item> Columns carry the types the schema declares for them; a column without
    \<^verbatim>\<open>NOT NULL\<close> is an \<open>option\<close>. Integers are mathematical integers.
  \<^item> A point in time is a number of microseconds. \<^verbatim>\<open>CURRENT_TIMESTAMP\<close> is the
    UTC clock cut to whole seconds, \<^verbatim>\<open>datetime.now()\<close> is the local wall clock. The
    clock does not advance inside one operation.
  \<^item> \<^verbatim>\<open>threading.Lock\<close> is not reentrant: acquiring it while it is held never
    returns. That outcome is the value \<open>Blocked\<close>.
\<close>

subsection \<open>Data model\<close>

type_synonym timestamp = int

datatype error = IntegrityError | OperationalError

datatype 'a outcome = Returned 'a | Raised error | Blocked

text \<open>\<^verbatim>\<open>guild_config(guild_id PK, channel_id, log_channel_id, support_channel_id, created_at, updated_at)\<close>\<close>

record guild_config_row =
  channel_id :: "int option"
  log_channel_id :: "int option"
  support_channel_id :: "int option"
  gc_created_at :: timestamp
  gc_updated_at :: timestamp

text \<open>\<^verbatim>\<open>user_reactions(id, guild_id, user_id, reaction_count, last_reaction_at, created_at, updated_at, UNIQUE(guild_id, user_id))\<close>\<close>

record reaction_row =
  reaction_count :: int
  last_reaction_at :: "timestamp option"
  ur_created_at :: timestamp
  ur_updated_at :: timestamp

text \<open>\<^verbatim>\<open>banned_users(user_id PK, reason, banned_by, banned_at)\<close>\<close>

record banned_row =
  reason :: "string option"
  banned_by :: "int option"
  banned_at :: timestamp

text \<open>\<^verbatim>\<open>tickets(ticket_id PK, user_id, user_name, guild_id, guild_name, message, status, created_at, admin_response, admin_responder, response_timestamp, closed_by, closed_timestamp)\<close>\<close>

record ticket =
  user_id :: int
  user_name :: string
  guild_id :: int
  guild_name :: string
  message :: string
  status :: string
  created_at :: timestamp
  admin_response :: "string option"
  admin_responder :: "string option"
  response_timestamp :: "timestamp option"
  closed_by :: "string option"
  closed_timestamp :: "timestamp option"

record database =
  guild_config :: "(int \<times> guild_config_row) list"
  user_reactions :: "((int \<times> int) \<times> reaction_row) list"
  admin_users :: "(int \<times> timestamp) list"
  banned_users :: "(int \<times> banned_row) list"
  tickets :: "(string \<times> ticket) list"

record world =
  db_lock :: bool
  db_file :: database
  open_connections :: nat
  utc_now :: timestamp
  utc_offset :: int

type_synonym 'a operation = "world \<Rightarrow> 'a outcome \<times> world"

subsection \<open>Clock\<close>

definition CURRENT_TIMESTAMP :: "world \<Rightarrow> timestamp" where
  "CURRENT_TIMESTAMP w = (utc_now w div 1000000) * 1000000"

definition datetime_now :: "world \<Rightarrow> timestamp" where
  "datetime_now w = utc_now w + utc_offset w"


subsection \<open>SQL statements on a keyed table\<close>

definition fetchone :: "('k \<times> 'v) list \<Rightarrow> 'k \<Rightarrow> 'v option" where
  "fetchone rows k = map_of rows k"

definition insert_row :: "'k \<Rightarrow> 'v \<Rightarrow> ('k \<times> 'v) list \<Rightarrow> error + ('k \<times> 'v) list" where
  "insert_row k v rows =
     (if k \<in> set (map fst rows) then Inl IntegrityError else Inr (rows @ [(k, v)]))"

definition update_where :: "'k \<Rightarrow> ('v \<Rightarrow> 'v) \<Rightarrow> ('k \<times> 'v) list \<Rightarrow> ('k \<times> 'v) list" where
  "update_where k f rows = map (\<lambda>(k', v). if k' = k then (k', f v) else (k', v)) rows"

definition delete_where :: "'k \<Rightarrow> ('k \<times> 'v) list \<Rightarrow> ('k \<times> 'v) list" where
  "delete_where k rows = filter (\<lambda>(k', v). k' \<noteq> k) rows"

definition rowcount :: "'k \<Rightarrow> ('k \<times> 'v) list \<Rightarrow> nat" where
  "rowcount k rows = length (filter (\<lambda>(k', v). k' = k) rows)"

subsection \<open>\<^verbatim>\<open>get_db_connection\<close>: the connection guard\<close>

text \<open>
  \<^verbatim>\<open>
  with db_lock:
      conn = sqlite3.connect(DB_FILE)
      try:
          yield conn
          conn.commit()
      except Exception:
          conn.rollback()
          raise
      finally:
          conn.close()
  \<close>
  The body of the \<^verbatim>\<open>with\<close> statement is a function of the connection (the contents
  of the file as the open transaction sees them) and of the world, since it may call
  other store operations. It yields a value together with the contents its statements
  produced, raises, or blocks. The bodies modelled here never call \<^verbatim>\<open>commit\<close>
  themselves. Creating the data directory and opening the file are taken to succeed.
\<close>

definition acquire :: "world \<Rightarrow> world option" where
  "acquire w = (if db_lock w then None else Some (w\<lparr>db_lock := True\<rparr>))"

definition release :: "world \<Rightarrow> world" where
  "release w = w\<lparr>db_lock := False\<rparr>"

definition connect :: "world \<Rightarrow> database \<times> world" where
  "connect w = (db_file w, w\<lparr>open_connections := Suc (open_connections w)\<rparr>)"

definition commit :: "database \<Rightarrow> world \<Rightarrow> world" where
  "commit conn w = w\<lparr>db_file := conn\<rparr>"

definition rollback :: "database \<Rightarrow> world \<Rightarrow> world" where
  "rollback conn w = w"

definition close :: "world \<Rightarrow> world" where
  "close w = w\<lparr>open_connections := open_connections w - 1\<rparr>"

definition get_db_connection ::
  "(database \<Rightarrow> world \<Rightarrow> ('a \<times> database) outcome \<times> world) \<Rightarrow> 'a operation" where
  "get_db_connection body w =
     (case acquire w of
        None \<Rightarrow> (Blocked, w)
      | Some w1 \<Rightarrow>
          (case connect w1 of (conn, w2) \<Rightarrow>
             (case body conn w2 of
                (Returned (v, conn'), w3) \<Rightarrow> (Returned v, release (close (commit conn' w3)))
              | (Raised e, w3) \<Rightarrow> (Raised e, release (close (rollback conn w3)))
              | (Blocked, w3) \<Rightarrow> (Blocked, w3))))"

text \<open>A body that only runs statements on its own connection.\<close>

definition statements ::
  "(database \<Rightarrow> error + ('a \<times> database)) \<Rightarrow> database \<Rightarrow> world \<Rightarrow> ('a \<times> database) outcome \<times> world" where
  "statements f conn w = (case f conn of Inl e \<Rightarrow> (Raised e, w) | Inr r \<Rightarrow> (Returned r, w))"

subsection \<open>Guild configuration\<close>

definition get_guild_config :: "int \<Rightarrow> guild_config_row option operation" where
  "get_guild_config gid =
     get_db_connection (\<lambda>conn w. (Returned (fetchone (guild_config conn) gid, conn), w))"

datatype guild_assignment =
  Set_channel_id int | Set_log_channel_id int | Set_support_channel_id int | Set_updated_at timestamp

fun assign_guild :: "guild_assignment \<Rightarrow> guild_config_row \<Rightarrow> guild_config_row" where
  "assign_guild (Set_channel_id x) r = r\<lparr>channel_id := Some x\<rparr>"
| "assign_guild (Set_log_channel_id x) r = r\<lparr>log_channel_id := Some x\<rparr>"
| "assign_guild (Set_support_channel_id x) r = r\<lparr>support_channel_id := Some x\<rparr>"
| "assign_guild (Set_updated_at t) r = r\<lparr>gc_updated_at := t\<rparr>"

definition guild_updates :: "int option \<Rightarrow> int option \<Rightarrow> int option \<Rightarrow> guild_assignment list" where
  "guild_updates channel log_channel support_channel =
     (case channel of None \<Rightarrow> [] | Some x \<Rightarrow> [Set_channel_id x]) @
     (case log_channel of None \<Rightarrow> [] | Some x \<Rightarrow> [Set_log_channel_id x]) @
     (case support_channel of None \<Rightarrow> [] | Some x \<Rightarrow> [Set_support_channel_id x])"

text \<open>
  The statements of \<^verbatim>\<open>set_guild_config\<close> that follow the lookup of \<^verbatim>\<open>existing\<close>:
  an \<^verbatim>\<open>UPDATE\<close> of the provided columns (and of \<^verbatim>\<open>updated_at\<close>) when a row was
  found and at least one column is provided, an \<^verbatim>\<open>INSERT\<close> when none was found.
\<close>

definition set_guild_config_statements ::
  "int \<Rightarrow> int option \<Rightarrow> int option \<Rightarrow> int option \<Rightarrow> guild_config_row option \<Rightarrow> timestamp
     \<Rightarrow> database \<Rightarrow> error + (unit \<times> database)" where
  "set_guild_config_statements gid channel log_channel support_channel existing now conn =
     (case existing of
        Some row \<Rightarrow>
          (let updates = guild_updates channel log_channel support_channel in
           if updates \<noteq> [] then
             Inr ((), conn\<lparr>guild_config :=
                     update_where gid (\<lambda>r. fold assign_guild (updates @ [Set_updated_at now]) r)
                       (guild_config conn)\<rparr>)
           else Inr ((), conn))
      | None \<Rightarrow>
          (case insert_row gid
                  \<lparr>channel_id = channel, log_channel_id = log_channel,
                   support_channel_id = support_channel,
                   gc_created_at = now, gc_updated_at = now\<rparr> (guild_config conn) of
             Inl e \<Rightarrow> Inl e
           | Inr rows \<Rightarrow> Inr ((), conn\<lparr>guild_config := rows\<rparr>)))"

definition set_guild_config ::
  "int \<Rightarrow> int option \<Rightarrow> int option \<Rightarrow> int option \<Rightarrow> unit operation" where
  "set_guild_config gid channel log_channel support_channel =
     get_db_connection (\<lambda>conn w.
       (case get_guild_config gid w of
          (Returned existing, w') \<Rightarrow>
             statements (set_guild_config_statements gid channel log_channel support_channel
                           existing (CURRENT_TIMESTAMP w')) conn w'
        | (Raised e, w') \<Rightarrow> (Raised e, w')
        | (Blocked, w') \<Rightarrow> (Blocked, w')))"

subsection \<open>Reaction counters\<close>




subsection \<open>Admin users and banned users\<close>



definition remove_admin_user :: "int \<Rightarrow> bool operation" where
  "remove_admin_user uid =
     get_db_connection (\<lambda>conn w.
       (Returned (rowcount uid (admin_users conn) > 0,
                  conn\<lparr>admin_users := delete_where uid (admin_users conn)\<rparr>), w))"



subsection \<open>Tickets in \<^verbatim>\<open>database.py\<close> (imported by \<^verbatim>\<open>tickets.py\<close> under the \<^verbatim>\<open>db_\<close> names)\<close>



definition db_get_ticket :: "string \<Rightarrow> ticket option operation" where
  "db_get_ticket tid =
     get_db_connection (\<lambda>conn w. (Returned (fetchone (tickets conn) tid, conn), w))"

text \<open>
  The keyword arguments of \<^verbatim>\<open>update_ticket(ticket_id, **updates)\<close>, one constructor for
  each column with a value of the column's type, and \<open>No_such_column\<close> for a keyword
  that names no column of \<^verbatim>\<open>tickets\<close> (the statement then fails to compile and
  \<^verbatim>\<open>execute\<close> raises \<^verbatim>\<open>sqlite3.OperationalError\<close>). The key column is not among
  them: the keyword \<^verbatim>\<open>ticket_id\<close> is taken by the first parameter, and Python rejects a
  call that passes it again.
\<close>

datatype ticket_update =
    Upd_user_id int
  | Upd_user_name string
  | Upd_guild_id int
  | Upd_guild_name string
  | Upd_message string
  | Upd_status string
  | Upd_created_at timestamp
  | Upd_admin_response "string option"
  | Upd_admin_responder "string option"
  | Upd_response_timestamp "timestamp option"
  | Upd_closed_by "string option"
  | Upd_closed_timestamp "timestamp option"
  | No_such_column string

fun is_column :: "ticket_update \<Rightarrow> bool" where
  "is_column (No_such_column k) = False"
| "is_column u = True"

fun assign_ticket :: "ticket_update \<Rightarrow> ticket \<Rightarrow> ticket" where
  "assign_ticket (Upd_user_id x) t = t\<lparr>user_id := x\<rparr>"
| "assign_ticket (Upd_user_name x) t = t\<lparr>user_name := x\<rparr>"
| "assign_ticket (Upd_guild_id x) t = t\<lparr>guild_id := x\<rparr>"
| "assign_ticket (Upd_guild_name x) t = t\<lparr>guild_name := x\<rparr>"
| "assign_ticket (Upd_message x) t = t\<lparr>message := x\<rparr>"
| "assign_ticket (Upd_status x) t = t\<lparr>status := x\<rparr>"
| "assign_ticket (Upd_created_at x) t = t\<lparr>created_at := x\<rparr>"
| "assign_ticket (Upd_admin_response x) t = t\<lparr>admin_response := x\<rparr>"
| "assign_ticket (Upd_admin_responder x) t = t\<lparr>admin_responder := x\<rparr>"
| "assign_ticket (Upd_response_timestamp x) t = t\<lparr>response_timestamp := x\<rparr>"
| "assign_ticket (Upd_closed_by x) t = t\<lparr>closed_by := x\<rparr>"
| "assign_ticket (Upd_closed_timestamp x) t = t\<lparr>closed_timestamp := x\<rparr>"
| "assign_ticket (No_such_column c) t = t"

text \<open>
  \<^verbatim>\<open>UPDATE tickets SET ... WHERE ticket_id = ?\<close> followed by
  \<^verbatim>\<open>return cursor.rowcount > 0\<close>: every matching row takes the new values.
\<close>

definition update_tickets ::
  "string \<Rightarrow> ticket_update list \<Rightarrow> database \<Rightarrow> error + (bool \<times> database)" where
  "update_tickets tid updates conn =
     (if \<not> list_all is_column updates then Inl OperationalError
      else Inr (rowcount tid (tickets conn) > 0,
                conn\<lparr>tickets := update_where tid (fold assign_ticket updates) (tickets conn)\<rparr>))"

definition db_update_ticket :: "string \<Rightarrow> ticket_update list \<Rightarrow> bool operation" where
  "db_update_ticket tid updates w =
     (if updates = [] then (Returned False, w)
      else get_db_connection (statements (update_tickets tid updates)) w)"

text \<open>Python's truth value of an optional string: \<^verbatim>\<open>None\<close> and \<^verbatim>\<open>""\<close> are false.\<close>

fun truthy :: "string option \<Rightarrow> bool" where
  "truthy None = False"
| "truthy (Some s) = (s \<noteq> [])"

definition close_updates ::
  "string \<Rightarrow> string option \<Rightarrow> string option \<Rightarrow> timestamp \<Rightarrow> ticket_update list" where
  "close_updates closer response responder now =
     [Upd_status (''closed_by_'' @ closer), Upd_closed_timestamp (Some now),
      Upd_closed_by (Some closer)] @
     (if truthy response then [Upd_admin_response response] else []) @
     (if truthy responder then [Upd_admin_responder responder, Upd_response_timestamp (Some now)]
      else [])"

definition db_close_ticket ::
  "string \<Rightarrow> string \<Rightarrow> string option \<Rightarrow> string option \<Rightarrow> bool operation" where
  "db_close_ticket tid closer response responder w =
     db_update_ticket tid (close_updates closer response responder (datetime_now w)) w"




subsection \<open>\<^verbatim>\<open>tickets.py\<close>\<close>





definition get_ticket :: "string \<Rightarrow> ticket option operation" where
  "get_ticket tid = db_get_ticket tid"


definition close_ticket ::
  "string \<Rightarrow> string \<Rightarrow> string option \<Rightarrow> string option \<Rightarrow> bool operation" where
  "close_ticket tid closer response responder = db_close_ticket tid closer response responder"




subsection \<open>Sample states\<close>

text \<open>The file as \<^verbatim>\<open>init_database\<close> leaves it when it did not exist before: six empty tables.\<close>

definition empty_database :: database where
  "empty_database =
     \<lparr>guild_config = [], user_reactions = [], admin_users = [], banned_users = [], tickets = []\<rparr>"

definition idle_world :: world where
  "idle_world =
     \<lparr>db_lock = False, db_file = empty_database, open_connections = 0,
      utc_now = 1700000000123456, utc_offset = 3600000000\<rparr>"

definition sample_ticket :: "string \<Rightarrow> timestamp \<Rightarrow> ticket" where
  "sample_ticket st t =
     \<lparr>user_id = 7, user_name = ''ann'', guild_id = 1, guild_name = ''home'',
      message = ''help'', status = st, created_at = t,
      admin_response = None, admin_responder = None, response_timestamp = None,
      closed_by = None, closed_timestamp = None\<rparr>"

text \<open>One open ticket, one admin and one banned user.\<close>

definition busy_world :: world where
  "busy_world =
     idle_world\<lparr>db_file := empty_database
       \<lparr>admin_users := [(5, 1690000000000000)],
        banned_users := [(9, \<lparr>reason = None, banned_by = Some 5, banned_at = 1690000000000000\<rparr>)],
        tickets := [(''a1b2c3d4'', sample_ticket ''open'' 1690000000000000)]\<rparr>\<rparr>"


text \<open>A guild with only its channel configured.\<close>

definition sample_config :: guild_config_row where
  "sample_config =
     \<lparr>channel_id = Some 10, log_channel_id = None, support_channel_id = None,
      gc_created_at = 1690000000000000, gc_updated_at = 1690000000000000\<rparr>"

definition configured_database :: database where
  "configured_database = empty_database\<lparr>guild_config := [(1, sample_config)]\<rparr>"

section \<open>Properties\<close>

subsection \<open>The connection guard\<close>

lemma get_db_connection_held: "db_lock w \<Longrightarrow> get_db_connection body w = (Blocked, w)"
  by (simp add: get_db_connection_def acquire_def)

lemma get_db_connection_free:
  "\<not> db_lock w \<Longrightarrow> get_db_connection body w =
     (case body (db_file w) (w\<lparr>db_lock := True, open_connections := Suc (open_connections w)\<rparr>) of
        (Returned (v, conn'), w3) \<Rightarrow>
           (Returned v, w3\<lparr>db_file := conn', open_connections := open_connections w3 - 1,
                           db_lock := False\<rparr>)
      | (Raised e, w3) \<Rightarrow>
           (Raised e, w3\<lparr>open_connections := open_connections w3 - 1, db_lock := False\<rparr>)
      | (Blocked, w3) \<Rightarrow> (Blocked, w3))"
  by (simp add: get_db_connection_def acquire_def connect_def commit_def rollback_def close_def
      release_def split: prod.splits outcome.splits)

lemma guard_statements:
  "\<not> db_lock w \<Longrightarrow> get_db_connection (statements f) w =
     (case f (db_file w) of
        Inl e \<Rightarrow> (Raised e, w)
      | Inr (v, conn') \<Rightarrow> (Returned v, w\<lparr>db_file := conn'\<rparr>))"
  by (simp add: get_db_connection_free statements_def split: sum.splits)

text \<open>
  C3. Started with the lock free, the guard runs the body with the lock held and one more
  connection open. If the body returns a value with the contents \<open>conn'\<close>, the guard commits
  \<open>conn'\<close> to the file, closes the connection, releases the lock and returns the value. If the
  body raises, nothing of the transaction reaches the file, the connection is closed, the lock
  is released and the same error is raised. For a body that only runs statements the world
  after a raise is the world before the call.
\<close>

theorem guard_commit_rollback_release:
  assumes "\<not> db_lock w"
  shows "(body (db_file w) (w\<lparr>db_lock := True, open_connections := Suc (open_connections w)\<rparr>)
            = (Returned (v, conn'), w') \<longrightarrow>
          get_db_connection body w =
            (Returned v, w'\<lparr>db_file := conn', open_connections := open_connections w' - 1,
                            db_lock := False\<rparr>))
       \<and> (body (db_file w) (w\<lparr>db_lock := True, open_connections := Suc (open_connections w)\<rparr>)
            = (Raised e, w') \<longrightarrow>
          get_db_connection body w =
            (Raised e, w'\<lparr>open_connections := open_connections w' - 1, db_lock := False\<rparr>))
       \<and> (f (db_file w) = Inr (v, conn') \<longrightarrow>
          get_db_connection (statements f) w = (Returned v, w\<lparr>db_file := conn'\<rparr>))
       \<and> (f (db_file w) = Inl e \<longrightarrow>
          get_db_connection (statements f) w = (Raised e, w))"
proof (intro conjI impI)
  assume "body (db_file w) (w\<lparr>db_lock := True, open_connections := Suc (open_connections w)\<rparr>)
            = (Returned (v, conn'), w')"
  with assms show "get_db_connection body w =
            (Returned v, w'\<lparr>db_file := conn', open_connections := open_connections w' - 1,
                            db_lock := False\<rparr>)"
    by (simp add: get_db_connection_free)
next
  assume "body (db_file w) (w\<lparr>db_lock := True, open_connections := Suc (open_connections w)\<rparr>)
            = (Raised e, w')"
  with assms show "get_db_connection body w =
            (Raised e, w'\<lparr>open_connections := open_connections w' - 1, db_lock := False\<rparr>)"
    by (simp add: get_db_connection_free)
next
  assume "f (db_file w) = Inr (v, conn')"
  with assms show "get_db_connection (statements f) w = (Returned v, w\<lparr>db_file := conn'\<rparr>)"
    by (simp add: guard_statements)
next
  assume "f (db_file w) = Inl e"
  with assms show "get_db_connection (statements f) w = (Raised e, w)"
    by (simp add: guard_statements)
qed

theorem guard_commit_rollback_release_witness:
  "\<not> db_lock idle_world
   \<and> get_db_connection (statements (\<lambda>conn. Inr (True, conn\<lparr>admin_users := [(5, 0)]\<rparr>))) idle_world
       = (Returned True, idle_world\<lparr>db_file := empty_database\<lparr>admin_users := [(5, 0)]\<rparr>\<rparr>)
   \<and> get_db_connection (\<lambda>conn w. (Raised IntegrityError :: (bool \<times> database) outcome, w)) idle_world
       = (Raised IntegrityError, idle_world)
   \<and> get_db_connection (statements (\<lambda>conn. (Inl OperationalError :: error + (bool \<times> database))))
        idle_world
       = (Raised OperationalError, idle_world)"
proof -
  have free: "\<not> db_lock idle_world" by (simp add: idle_world_def)
  have db: "db_file idle_world = empty_database" by (simp add: idle_world_def)
  have oc: "open_connections idle_world = 0" by (simp add: idle_world_def)
  have same: "idle_world\<lparr>db_lock := True, open_connections := Suc 0, open_connections := 0,
                db_lock := False\<rparr> = idle_world"
    by (simp add: idle_world_def)
  show ?thesis
    using guard_commit_rollback_release [OF free,
          where f = "\<lambda>conn. Inr (True, conn\<lparr>admin_users := [(5, 0)]\<rparr>)"
          and v = True and conn' = "empty_database\<lparr>admin_users := [(5, 0)]\<rparr>"
          and body = "\<lambda>conn w. (Raised IntegrityError :: (bool \<times> database) outcome, w)"
          and e = IntegrityError
          and w' = "idle_world\<lparr>db_lock := True, open_connections := Suc 0\<rparr>"]
      guard_commit_rollback_release [OF free,
          where f = "\<lambda>conn. (Inl OperationalError :: error + (bool \<times> database))"
          and e = OperationalError]
    by (simp add: db free oc same)
qed

subsection \<open>Tables\<close>

lemma fetchone_None_iff: "fetchone rows k = None \<longleftrightarrow> k \<notin> set (map fst rows)"
  by (simp add: fetchone_def map_of_eq_None_iff)

lemma fetchone_append:
  "fetchone (rows @ [(k, v)]) k' =
     (case fetchone rows k' of Some x \<Rightarrow> Some x | None \<Rightarrow> if k' = k then Some v else None)"
  by (simp add: fetchone_def map_add_def split: option.splits)

lemma fetchone_update_where:
  "fetchone (update_where k f rows) k' =
     (if k' = k then map_option f (fetchone rows k) else fetchone rows k')"
  by (induction rows) (auto simp: fetchone_def update_where_def)

lemma keys_update_where: "map fst (update_where k f rows) = map fst rows"
  by (induction rows) (auto simp: update_where_def)

lemma rowcount_pos_iff: "rowcount k rows > 0 \<longleftrightarrow> k \<in> set (map fst rows)"
  by (induction rows) (auto simp: rowcount_def)

subsection \<open>Reaction counters\<close>






subsection \<open>Inserts into the admin, ban and ticket tables\<close>






lemma db_get_ticket_free:
  "\<not> db_lock w \<Longrightarrow> db_get_ticket tid w = (Returned (fetchone (tickets (db_file w)) tid), w)"
  by (simp add: db_get_ticket_def get_db_connection_free)



lemma busy_free: "\<not> db_lock busy_world"
  by (simp add: busy_world_def idle_world_def)



subsection \<open>Creating a ticket\<close>









subsection \<open>Updating and closing a ticket\<close>


lemma db_update_ticket_free:
  "\<not> db_lock w \<Longrightarrow> us \<noteq> [] \<Longrightarrow> db_update_ticket tid us w =
     (case update_tickets tid us (db_file w) of
        Inl e \<Rightarrow> (Raised e, w)
      | Inr (v, conn') \<Rightarrow> (Returned v, w\<lparr>db_file := conn'\<rparr>))"
  by (simp add: db_update_ticket_def guard_statements)


lemma busy_tickets:
  "tickets (db_file busy_world) = [(''a1b2c3d4'', sample_ticket ''open'' 1690000000000000)]"
  by (simp add: busy_world_def idle_world_def empty_database_def)

lemma busy_ticket:
  "fetchone (tickets (db_file busy_world)) ''a1b2c3d4'' = Some (sample_ticket ''open'' 1690000000000000)"
  by (simp add: busy_tickets fetchone_def)


lemma fold_close_updates:
  "fold assign_ticket (close_updates closer response responder now) t =
     t\<lparr>status := ''closed_by_'' @ closer, closed_timestamp := Some now,
       closed_by := Some closer,
       admin_response := (if truthy response then response else admin_response t),
       admin_responder := (if truthy responder then responder else admin_responder t),
       response_timestamp :=
         (if truthy responder then Some now else response_timestamp t)\<rparr>"
  by (simp add: close_updates_def)

lemma close_updates_columns:
  "close_updates closer response responder now \<noteq> []"
  "list_all is_column (close_updates closer response responder now)"
  by (simp_all add: close_updates_def)

lemma close_ticket_free:
  assumes "\<not> db_lock w"
  shows "close_ticket tid closer response responder w =
     (Returned (tid \<in> set (map fst (tickets (db_file w)))),
      w\<lparr>db_file := (db_file w)\<lparr>tickets :=
           update_where tid
             (fold assign_ticket (close_updates closer response responder (datetime_now w)))
             (tickets (db_file w))\<rparr>\<rparr>)"
proof -
  have "update_tickets tid (close_updates closer response responder (datetime_now w)) (db_file w)
     = Inr (tid \<in> set (map fst (tickets (db_file w))),
            (db_file w)\<lparr>tickets :=
           update_where tid
             (fold assign_ticket (close_updates closer response responder (datetime_now w)))
             (tickets (db_file w))\<rparr>)"
    using rowcount_pos_iff [of tid "tickets (db_file w)"]
    by (simp add: update_tickets_def close_updates_columns)
  with assms show ?thesis
    by (simp add: close_ticket_def db_close_ticket_def db_update_ticket_free close_updates_columns)
qed

lemma fetchone_closed:
  "fetchone (update_where tid
       (fold assign_ticket (close_updates closer response responder now)) rows) tid
   = map_option (\<lambda>t. t\<lparr>status := ''closed_by_'' @ closer, closed_timestamp := Some now,
           closed_by := Some closer,
           admin_response := (if truthy response then response else admin_response t),
           admin_responder := (if truthy responder then responder else admin_responder t),
           response_timestamp :=
             (if truthy responder then Some now else response_timestamp t)\<rparr>) (fetchone rows tid)"
proof -
  have "fold assign_ticket (close_updates closer response responder now)
      = (\<lambda>t. t\<lparr>status := ''closed_by_'' @ closer, closed_timestamp := Some now,
           closed_by := Some closer,
           admin_response := (if truthy response then response else admin_response t),
           admin_responder := (if truthy responder then responder else admin_responder t),
           response_timestamp :=
             (if truthy responder then Some now else response_timestamp t)\<rparr>)"
    by (rule ext) (rule fold_close_updates)
  then show ?thesis by (simp only: fetchone_update_where simp_thms if_True)
qed


text \<open>
  C6 (as amended). With the lock free and a ticket stored under the id, \<open>close_ticket\<close>
  returns \<open>True\<close>, and the ticket read back has status \<^verbatim>\<open>closed_by_\<close> followed by the
  closer, \<open>closed_timestamp\<close> set to the local time of the call and \<open>closed_by\<close> set to the
  closer. \<open>admin_response\<close> is set exactly when a non-empty response is given;
  \<open>admin_responder\<close> and \<open>response_timestamp\<close> are set exactly when a non-empty responder is
  given. Columns that are not set keep their values.
\<close>

theorem close_ticket_stamps:
  assumes "\<not> db_lock w" and "fetchone (tickets (db_file w)) tid = Some t"
  shows "\<exists>w'. close_ticket tid closer response responder w = (Returned True, w')
           \<and> get_ticket tid w' =
               (Returned (Some (t\<lparr>status := ''closed_by_'' @ closer,
                    closed_timestamp := Some (datetime_now w),
                    closed_by := Some closer,
                    admin_response := (if truthy response then response else admin_response t),
                    admin_responder := (if truthy responder then responder else admin_responder t),
                    response_timestamp :=
                      (if truthy responder then Some (datetime_now w) else response_timestamp t)\<rparr>)),
                w')"
proof -
  from assms(2) have "tid \<in> set (map fst (tickets (db_file w)))"
    using fetchone_None_iff [of "tickets (db_file w)" tid] by simp
  with assms show ?thesis
    by (simp add: close_ticket_free get_ticket_def db_get_ticket_free fetchone_closed)
qed

text \<open>
  C6 as stated fails: a response given without a responder is stored, and a responder given
  without a response stores the responder and leaves the response null.
\<close>

theorem close_ticket_response_without_responder:
  "map_option admin_response
     (fetchone (tickets (db_file (snd (close_ticket ''a1b2c3d4'' ''admin'' (Some ''resp'') None
        busy_world)))) ''a1b2c3d4'') = Some (Some ''resp'')
   \<and> map_option admin_responder
     (fetchone (tickets (db_file (snd (close_ticket ''a1b2c3d4'' ''admin'' (Some ''resp'') None
        busy_world)))) ''a1b2c3d4'') = Some None
   \<and> map_option admin_responder
     (fetchone (tickets (db_file (snd (close_ticket ''a1b2c3d4'' ''admin'' None (Some ''respName'')
        busy_world)))) ''a1b2c3d4'') = Some (Some ''respName'')
   \<and> map_option admin_response
     (fetchone (tickets (db_file (snd (close_ticket ''a1b2c3d4'' ''admin'' None (Some ''respName'')
        busy_world)))) ''a1b2c3d4'') = Some None"
  by (simp add: close_ticket_free [OF busy_free] fetchone_closed busy_ticket)
     (simp add: sample_ticket_def)

theorem close_ticket_stamps_witness:
  "\<not> db_lock busy_world
   \<and> fetchone (tickets (db_file busy_world)) ''a1b2c3d4''
       = Some (sample_ticket ''open'' 1690000000000000)
   \<and> (\<exists>w'. close_ticket ''a1b2c3d4'' ''admin'' (Some ''resp'') (Some ''respName'') busy_world
              = (Returned True, w')
          \<and> (\<exists>t. get_ticket ''a1b2c3d4'' w' = (Returned (Some t), w')
                 \<and> status t = ''closed_by_admin'' \<and> admin_response t = Some ''resp''
                 \<and> admin_responder t = Some ''respName''))"
proof -
  from close_ticket_stamps [OF busy_free busy_ticket, of "''admin''" "Some ''resp''" "Some ''respName''"]
  obtain w' where
    c: "close_ticket ''a1b2c3d4'' ''admin'' (Some ''resp'') (Some ''respName'') busy_world
          = (Returned True, w')"
    and g: "get_ticket ''a1b2c3d4'' w' =
       (Returned (Some ((sample_ticket ''open'' 1690000000000000)
          \<lparr>status := ''closed_by_'' @ ''admin'',
            closed_timestamp := Some (datetime_now busy_world),
            closed_by := Some ''admin'',
            admin_response := (if truthy (Some ''resp'') then Some ''resp''
               else admin_response (sample_ticket ''open'' 1690000000000000)),
            admin_responder := (if truthy (Some ''respName'') then Some ''respName''
               else admin_responder (sample_ticket ''open'' 1690000000000000)),
            response_timestamp := (if truthy (Some ''respName'') then Some (datetime_now busy_world)
               else response_timestamp (sample_ticket ''open'' 1690000000000000))\<rparr>)), w')"
    by blast
  from g have "\<exists>t. get_ticket ''a1b2c3d4'' w' = (Returned (Some t), w')
                 \<and> status t = ''closed_by_admin'' \<and> admin_response t = Some ''resp''
                 \<and> admin_responder t = Some ''respName''"
    by simp
  with c busy_free busy_ticket show ?thesis by blast
qed

subsection \<open>Cleaning up old tickets\<close>

























subsection \<open>Guild configuration\<close>

lemma get_guild_config_free:
  "\<not> db_lock w \<Longrightarrow> get_guild_config g w = (Returned (fetchone (guild_config (db_file w)) g), w)"
  by (simp add: get_guild_config_def get_db_connection_free)

lemma get_guild_config_held: "db_lock w \<Longrightarrow> get_guild_config g w = (Blocked, w)"
  by (simp add: get_guild_config_def get_db_connection_held)

lemma set_guild_config_blocks:
  "\<not> db_lock w \<Longrightarrow> set_guild_config g c l s w =
     (Blocked, w\<lparr>db_lock := True, open_connections := Suc (open_connections w)\<rparr>)"
  by (simp add: set_guild_config_def get_db_connection_free get_guild_config_held)

lemma set_guild_config_held: "db_lock w \<Longrightarrow> set_guild_config g c l s w = (Blocked, w)"
  by (simp add: set_guild_config_def get_db_connection_held)

lemma idle_free: "\<not> db_lock idle_world"
  by (simp add: idle_world_def)

text \<open>
  C1. \<open>set_guild_config\<close> enters the guard and, with \<^verbatim>\<open>db_lock\<close> held, calls
  \<open>get_guild_config\<close>, which enters the guard again: the second acquisition of the lock never
  returns. On the idle world the call ends blocked, with the lock held and its connection
  still open. (By \<open>set_guild_config_blocks\<close> this is so for every guild and every choice of
  fields.) The claim that no store operation acquires the lock while holding it fails here.
\<close>

theorem set_guild_config_nested_acquire:
  "set_guild_config 1 (Some 10) None None idle_world =
     (Blocked, idle_world\<lparr>db_lock := True, open_connections := 1\<rparr>)"
  by (simp add: set_guild_config_blocks [OF idle_free]) (simp add: idle_world_def)

text \<open>
  C4. The two partial updates of the claim, run on the idle world: the first call blocks and
  stores nothing, and the second call and the read after it block on the lock that the first
  one still holds. The statements of \<open>set_guild_config\<close> would do the partial update if they
  were reached (\<open>statements_partial_update\<close> below).
\<close>

theorem set_guild_config_never_stores:
  "fst (set_guild_config 1 (Some 10) None None idle_world) = Blocked
   \<and> guild_config (db_file (snd (set_guild_config 1 (Some 10) None None idle_world))) = []
   \<and> fst (set_guild_config 1 None (Some 20) None
             (snd (set_guild_config 1 (Some 10) None None idle_world))) = Blocked
   \<and> fst (get_guild_config 1
             (snd (set_guild_config 1 None (Some 20) None
                (snd (set_guild_config 1 (Some 10) None None idle_world))))) = Blocked"
  by (simp add: set_guild_config_blocks [OF idle_free] set_guild_config_held get_guild_config_held)
     (simp add: idle_world_def empty_database_def)

lemma fold_assign_guild_keeps:
  "(channel_id r \<noteq> None \<longrightarrow> channel_id (fold assign_guild us r) \<noteq> None)
   \<and> (log_channel_id r \<noteq> None \<longrightarrow> log_channel_id (fold assign_guild us r) \<noteq> None)
   \<and> (support_channel_id r \<noteq> None \<longrightarrow> support_channel_id (fold assign_guild us r) \<noteq> None)"
proof (induction us arbitrary: r)
  case Nil
  then show ?case by simp
next
  case (Cons u us)
  have "(channel_id r \<noteq> None \<longrightarrow> channel_id (assign_guild u r) \<noteq> None)
   \<and> (log_channel_id r \<noteq> None \<longrightarrow> log_channel_id (assign_guild u r) \<noteq> None)
   \<and> (support_channel_id r \<noteq> None \<longrightarrow> support_channel_id (assign_guild u r) \<noteq> None)"
    by (cases u) simp_all
  with Cons.IH [of "assign_guild u r"] show ?case by simp
qed

lemma statements_keep_fields:
  assumes run: "set_guild_config_statements g c l s existing now conn = Inr ((), conn')"
    and row: "fetchone (guild_config conn) g' = Some r"
  shows "\<exists>r'. fetchone (guild_config conn') g' = Some r'
           \<and> (channel_id r \<noteq> None \<longrightarrow> channel_id r' \<noteq> None)
           \<and> (log_channel_id r \<noteq> None \<longrightarrow> log_channel_id r' \<noteq> None)
           \<and> (support_channel_id r \<noteq> None \<longrightarrow> support_channel_id r' \<noteq> None)"
proof (cases existing)
  case None
  with run have "guild_config conn' =
      guild_config conn @ [(g, \<lparr>channel_id = c, log_channel_id = l, support_channel_id = s,
                              gc_created_at = now, gc_updated_at = now\<rparr>)]"
    by (auto simp: set_guild_config_statements_def insert_row_def split: if_splits)
  with row show ?thesis by (simp add: fetchone_append)
next
  case (Some old)
  show ?thesis
  proof (cases "guild_updates c l s = []")
    case True
    with Some run have "conn' = conn" by (simp add: set_guild_config_statements_def)
    with row show ?thesis by simp
  next
    case False
    with Some run have "guild_config conn' =
        update_where g (fold assign_guild (guild_updates c l s @ [Set_updated_at now]))
          (guild_config conn)"
      by (auto simp: set_guild_config_statements_def Let_def simp del: fold_append)
    then have upd: "fetchone (guild_config conn') g' =
        (if g' = g
         then map_option (fold assign_guild (guild_updates c l s @ [Set_updated_at now]))
                (fetchone (guild_config conn) g)
         else fetchone (guild_config conn) g')"
      by (simp only: fetchone_update_where)
    show ?thesis
    proof (cases "g' = g")
      case True
      with upd row have "fetchone (guild_config conn') g' =
          Some (fold assign_guild (guild_updates c l s @ [Set_updated_at now]) r)"
        by simp
      with fold_assign_guild_keeps [of r "guild_updates c l s @ [Set_updated_at now]"]
      show ?thesis by blast
    next
      case False
      with upd row have "fetchone (guild_config conn') g' = Some r" by simp
      then show ?thesis by blast
    qed
  qed
qed


lemma statements_partial_update:
  assumes "fetchone (guild_config conn) g = None"
    and "set_guild_config_statements g (Some x) None None None t1 conn = Inr ((), c1)"
    and "set_guild_config_statements g None (Some y) None (fetchone (guild_config c1) g) t2 c1
           = Inr ((), c2)"
  shows "\<exists>r. fetchone (guild_config c2) g = Some r
           \<and> channel_id r = Some x \<and> log_channel_id r = Some y"
proof -
  let ?new = "\<lparr>channel_id = Some x, log_channel_id = None, support_channel_id = None,
                gc_created_at = t1, gc_updated_at = t1\<rparr>"
  from assms(1) have fresh: "g \<notin> set (map fst (guild_config conn))"
    by (simp add: fetchone_None_iff)
  with assms(2) have c1: "guild_config c1 = guild_config conn @ [(g, ?new)]"
    by (auto simp: set_guild_config_statements_def insert_row_def)
  with assms(1) have row: "fetchone (guild_config c1) g = Some ?new"
    by (simp add: fetchone_append)
  with assms(3) have "guild_config c2 =
      update_where g (fold assign_guild [Set_log_channel_id y, Set_updated_at t2]) (guild_config c1)"
    by (auto simp: set_guild_config_statements_def guild_updates_def)
  then have "fetchone (guild_config c2) g =
      Some (fold assign_guild [Set_log_channel_id y, Set_updated_at t2] ?new)"
    using row by (simp only: fetchone_update_where) simp
  then show ?thesis by simp
qed

text \<open>
  C10. The statements of \<open>set_guild_config\<close> on a row that exists, with no field given, leave
  the connection as it is: no \<^verbatim>\<open>UPDATE\<close> runs and \<open>updated_at\<close> is not refreshed. Whatever
  the arguments, a channel field that is set in a row before the statements is set in that
  row after them. The call itself never changes the file.
\<close>

theorem set_guild_config_never_clears:
  "set_guild_config_statements g None None None (Some row) now conn = Inr ((), conn)
   \<and> (set_guild_config_statements g c l s existing now conn = Inr ((), conn')
        \<and> fetchone (guild_config conn) g' = Some r \<longrightarrow>
      (\<exists>r'. fetchone (guild_config conn') g' = Some r'
           \<and> (channel_id r \<noteq> None \<longrightarrow> channel_id r' \<noteq> None)
           \<and> (log_channel_id r \<noteq> None \<longrightarrow> log_channel_id r' \<noteq> None)
           \<and> (support_channel_id r \<noteq> None \<longrightarrow> support_channel_id r' \<noteq> None)))
   \<and> db_file (snd (set_guild_config g c l s w)) = db_file w"
proof (intro conjI impI)
  show "set_guild_config_statements g None None None (Some row) now conn = Inr ((), conn)"
    by (simp add: set_guild_config_statements_def guild_updates_def)
next
  assume "set_guild_config_statements g c l s existing now conn = Inr ((), conn')
        \<and> fetchone (guild_config conn) g' = Some r"
  then show "\<exists>r'. fetchone (guild_config conn') g' = Some r'
           \<and> (channel_id r \<noteq> None \<longrightarrow> channel_id r' \<noteq> None)
           \<and> (log_channel_id r \<noteq> None \<longrightarrow> log_channel_id r' \<noteq> None)
           \<and> (support_channel_id r \<noteq> None \<longrightarrow> support_channel_id r' \<noteq> None)"
    using statements_keep_fields [of g c l s existing now conn conn' g' r] by blast
next
  show "db_file (snd (set_guild_config g c l s w)) = db_file w"
    by (cases "db_lock w") (simp_all add: set_guild_config_held set_guild_config_blocks)
qed

lemma configured_row: "fetchone (guild_config configured_database) 1 = Some sample_config"
  by (simp add: configured_database_def empty_database_def fetchone_def)

lemma configured_update:
  "set_guild_config_statements 1 None (Some 20) None (Some sample_config) 1700000000000000
      configured_database
     = Inr ((), configured_database\<lparr>guild_config :=
          [(1, sample_config\<lparr>log_channel_id := Some 20, gc_updated_at := 1700000000000000\<rparr>)]\<rparr>)"
  by (simp add: set_guild_config_statements_def guild_updates_def update_where_def
      configured_database_def empty_database_def)

theorem set_guild_config_never_clears_witness:
  "set_guild_config_statements 1 None (Some 20) None (Some sample_config) 1700000000000000
      configured_database
     = Inr ((), configured_database\<lparr>guild_config :=
          [(1, sample_config\<lparr>log_channel_id := Some 20, gc_updated_at := 1700000000000000\<rparr>)]\<rparr>)
   \<and> fetchone (guild_config configured_database) 1 = Some sample_config
   \<and> channel_id sample_config \<noteq> None
   \<and> (\<exists>r'. fetchone (guild_config (configured_database\<lparr>guild_config :=
          [(1, sample_config\<lparr>log_channel_id := Some 20, gc_updated_at := 1700000000000000\<rparr>)]\<rparr>)) 1
            = Some r' \<and> channel_id r' \<noteq> None)"
proof -
  have set: "channel_id sample_config \<noteq> None" by (simp add: sample_config_def)
  from set_guild_config_never_clears [of 1 sample_config 1700000000000000 configured_database
      None "Some 20" None "Some sample_config"
      "configured_database\<lparr>guild_config :=
          [(1, sample_config\<lparr>log_channel_id := Some 20, gc_updated_at := 1700000000000000\<rparr>)]\<rparr>"
      1 sample_config]
    configured_update configured_row set
  have "\<exists>r'. fetchone (guild_config (configured_database\<lparr>guild_config :=
          [(1, sample_config\<lparr>log_channel_id := Some 20, gc_updated_at := 1700000000000000\<rparr>)]\<rparr>)) 1
            = Some r' \<and> channel_id r' \<noteq> None"
    by blast
  with configured_update configured_row set show ?thesis by blast
qed

end
